theory Spec2Isabelle
  imports Main
begin

section \<open>Go library functions called by \<open>main.go\<close>\<close>

text \<open>
  A Go \<open>string\<close> is a sequence of bytes; it is modelled as a \<^typ>\<open>string\<close> (a list of
  8-bit characters). The library functions below are the ones \<open>formatDuration\<close> calls:
  \<open>strings.ToLower\<close>, \<open>strings.ReplaceAll\<close>, \<open>time.ParseDuration\<close>, the methods
  \<open>Hours\<close>, \<open>Minutes\<close>, \<open>Seconds\<close> of \<open>time.Duration\<close>, and \<open>fmt.Sprintf\<close> with the
  verbs \<open>%d\<close>, \<open>%02d\<close> and \<open>%s\<close>. \<open>int\<close> is the 64-bit \<open>int\<close> of the usual platforms.
\<close>

subsection \<open>Bytes and UTF-8\<close>

definition byte :: "char \<Rightarrow> nat" where
  "byte c = of_char c"

definition byte_char :: "nat \<Rightarrow> char" where
  \<comment> \<open>the byte with the value \<open>n < 256\<close>\<close>
  "byte_char n =
     Char (odd n) (odd (n div 2)) (odd (n div 4)) (odd (n div 8))
          (odd (n div 16)) (odd (n div 32)) (odd (n div 64)) (odd (n div 128))"

definition is_ascii :: "string \<Rightarrow> bool" where
  "is_ascii s = list_all (\<lambda>c. byte c < 128) s"

definition is_digit :: "char \<Rightarrow> bool" where
  \<comment> \<open>\<open>'0' <= c && c <= '9'\<close>\<close>
  "is_digit c = (48 \<le> byte c \<and> byte c \<le> 57)"

definition digit_val :: "char \<Rightarrow> nat" where
  \<comment> \<open>\<open>uint64(c) - '0'\<close>, for a digit\<close>
  "digit_val c = byte c - 48"

definition RuneError :: nat where
  "RuneError = 0xFFFD"

definition cont :: "nat \<Rightarrow> bool" where
  \<comment> \<open>a continuation byte\<close>
  "cont b = (0x80 \<le> b \<and> b \<le> 0xBF)"

text \<open>
  \<open>utf8.DecodeRuneInString\<close>: the first code point of a non-empty string and its width
  in bytes. Only well-formed UTF-8 is decoded (shortest form, no surrogate, at most
  U+10FFFF); anything else is \<open>RuneError\<close> of width 1.
\<close>

definition DecodeRune :: "string \<Rightarrow> nat \<times> nat" where
  "DecodeRune s =
     (case map byte s of
        [] \<Rightarrow> (RuneError, 0)
      | b0 # bs \<Rightarrow>
         (if b0 < 0x80 then (b0, 1)
          else if 0xC2 \<le> b0 \<and> b0 \<le> 0xDF then
            (case bs of
               b1 # _ \<Rightarrow>
                 if cont b1 then ((b0 - 0xC0) * 64 + (b1 - 0x80), 2) else (RuneError, 1)
             | _ \<Rightarrow> (RuneError, 1))
          else if 0xE0 \<le> b0 \<and> b0 \<le> 0xEF then
            (case bs of
               b1 # b2 # _ \<Rightarrow>
                 if (if b0 = 0xE0 then 0xA0 else 0x80) \<le> b1
                    \<and> b1 \<le> (if b0 = 0xED then 0x9F else 0xBF) \<and> cont b2
                 then ((b0 - 0xE0) * 4096 + (b1 - 0x80) * 64 + (b2 - 0x80), 3)
                 else (RuneError, 1)
             | _ \<Rightarrow> (RuneError, 1))
          else if 0xF0 \<le> b0 \<and> b0 \<le> 0xF4 then
            (case bs of
               b1 # b2 # b3 # _ \<Rightarrow>
                 if (if b0 = 0xF0 then 0x90 else 0x80) \<le> b1
                    \<and> b1 \<le> (if b0 = 0xF4 then 0x8F else 0xBF) \<and> cont b2 \<and> cont b3
                 then ((b0 - 0xF0) * 262144 + (b1 - 0x80) * 4096 + (b2 - 0x80) * 64
                       + (b3 - 0x80), 4)
                 else (RuneError, 1)
             | _ \<Rightarrow> (RuneError, 1))
          else (RuneError, 1)))"

definition EncodeRune :: "nat \<Rightarrow> string" where
  \<comment> \<open>\<open>utf8.AppendRune\<close>: a surrogate or a value above U+10FFFF is written as \<open>RuneError\<close>\<close>
  "EncodeRune r =
     (if r < 0x80 then [byte_char r]
      else if r < 0x800 then [byte_char (0xC0 + r div 64), byte_char (0x80 + r mod 64)]
      else if (0xD800 \<le> r \<and> r \<le> 0xDFFF) \<or> 0x10FFFF < r then
        [byte_char 0xEF, byte_char 0xBF, byte_char 0xBD]
      else if r < 0x10000 then
        [byte_char (0xE0 + r div 4096), byte_char (0x80 + r div 64 mod 64),
         byte_char (0x80 + r mod 64)]
      else
        [byte_char (0xF0 + r div 262144), byte_char (0x80 + r div 4096 mod 64),
         byte_char (0x80 + r div 64 mod 64), byte_char (0x80 + r mod 64)])"

text \<open>
  The code points of a string, as \<open>for _, c := range s\<close> yields them, each with the bytes
  it was read from: an invalid byte is a \<open>RuneError\<close> read from that one byte.
\<close>

fun runes :: "string \<Rightarrow> (nat \<times> string) list" where
  "runes [] = []"
| "runes (c # cs) =
     (let w = snd (DecodeRune (c # cs))
      in (fst (DecodeRune (c # cs)), c # take (w - 1) cs) # runes (drop (w - 1) cs))"

declare runes.simps(2) [simp del]

subsection \<open>\<open>strings.ToLower\<close> and \<open>strings.ReplaceAll\<close>\<close>

text \<open>
  \<open>unicode.ToLower\<close>: below U+0080 the letters \<open>A .. Z\<close> move by \<open>'a' - 'A'\<close>; above, the
  simple lower-case mappings of the Unicode character database (version 14.0), kept as
  ranges \<open>(lo, hi, step, delta)\<close>: every \<open>step\<close>-th code point from \<open>lo\<close> to \<open>hi\<close> moves by
  \<open>delta\<close>.
\<close>

definition lower_ranges :: "(nat \<times> nat \<times> nat \<times> int) list" where
  "lower_ranges =
     [(192, 214, 1, 32), (216, 222, 1, 32), (256, 302, 2, 1), (304, 304, 1, - 199),
      (306, 310, 2, 1), (313, 327, 2, 1), (330, 374, 2, 1), (376, 376, 1, - 121),
      (377, 381, 2, 1), (385, 385, 1, 210), (386, 388, 2, 1), (390, 390, 1, 206),
      (391, 391, 1, 1), (393, 394, 1, 205), (395, 395, 1, 1), (398, 398, 1, 79),
      (399, 399, 1, 202), (400, 400, 1, 203), (401, 401, 1, 1), (403, 403, 1, 205),
      (404, 404, 1, 207), (406, 406, 1, 211), (407, 407, 1, 209), (408, 408, 1, 1),
      (412, 412, 1, 211), (413, 413, 1, 213), (415, 415, 1, 214), (416, 420, 2, 1),
      (422, 422, 1, 218), (423, 423, 1, 1), (425, 425, 1, 218), (428, 428, 1, 1),
      (430, 430, 1, 218), (431, 431, 1, 1), (433, 434, 1, 217), (435, 437, 2, 1),
      (439, 439, 1, 219), (440, 440, 1, 1), (444, 444, 1, 1), (452, 452, 1, 2),
      (453, 453, 1, 1), (455, 455, 1, 2), (456, 456, 1, 1), (458, 458, 1, 2), (459, 475, 2, 1),
      (478, 494, 2, 1), (497, 497, 1, 2), (498, 500, 2, 1), (502, 502, 1, - 97),
      (503, 503, 1, - 56), (504, 542, 2, 1), (544, 544, 1, - 130), (546, 562, 2, 1),
      (570, 570, 1, 10795), (571, 571, 1, 1), (573, 573, 1, - 163), (574, 574, 1, 10792),
      (577, 577, 1, 1), (579, 579, 1, - 195), (580, 580, 1, 69), (581, 581, 1, 71),
      (582, 590, 2, 1), (880, 882, 2, 1), (886, 886, 1, 1), (895, 895, 1, 116),
      (902, 902, 1, 38), (904, 906, 1, 37), (908, 908, 1, 64), (910, 911, 1, 63),
      (913, 929, 1, 32), (931, 939, 1, 32), (975, 975, 1, 8), (984, 1006, 2, 1),
      (1012, 1012, 1, - 60), (1015, 1015, 1, 1), (1017, 1017, 1, - 7), (1018, 1018, 1, 1),
      (1021, 1023, 1, - 130), (1024, 1039, 1, 80), (1040, 1071, 1, 32), (1120, 1152, 2, 1),
      (1162, 1214, 2, 1), (1216, 1216, 1, 15), (1217, 1229, 2, 1), (1232, 1326, 2, 1),
      (1329, 1366, 1, 48), (4256, 4293, 1, 7264), (4295, 4295, 1, 7264), (4301, 4301, 1, 7264),
      (5024, 5103, 1, 38864), (5104, 5109, 1, 8), (7312, 7354, 1, - 3008),
      (7357, 7359, 1, - 3008), (7680, 7828, 2, 1), (7838, 7838, 1, - 7615), (7840, 7934, 2, 1),
      (7944, 7951, 1, - 8), (7960, 7965, 1, - 8), (7976, 7983, 1, - 8), (7992, 7999, 1, - 8),
      (8008, 8013, 1, - 8), (8025, 8031, 2, - 8), (8040, 8047, 1, - 8), (8072, 8079, 1, - 8),
      (8088, 8095, 1, - 8), (8104, 8111, 1, - 8), (8120, 8121, 1, - 8), (8122, 8123, 1, - 74),
      (8124, 8124, 1, - 9), (8136, 8139, 1, - 86), (8140, 8140, 1, - 9), (8152, 8153, 1, - 8),
      (8154, 8155, 1, - 100), (8168, 8169, 1, - 8), (8170, 8171, 1, - 112),
      (8172, 8172, 1, - 7), (8184, 8185, 1, - 128), (8186, 8187, 1, - 126),
      (8188, 8188, 1, - 9), (8486, 8486, 1, - 7517), (8490, 8490, 1, - 8383),
      (8491, 8491, 1, - 8262), (8498, 8498, 1, 28), (8544, 8559, 1, 16), (8579, 8579, 1, 1),
      (9398, 9423, 1, 26), (11264, 11311, 1, 48), (11360, 11360, 1, 1),
      (11362, 11362, 1, - 10743), (11363, 11363, 1, - 3814), (11364, 11364, 1, - 10727),
      (11367, 11371, 2, 1), (11373, 11373, 1, - 10780), (11374, 11374, 1, - 10749),
      (11375, 11375, 1, - 10783), (11376, 11376, 1, - 10782), (11378, 11378, 1, 1),
      (11381, 11381, 1, 1), (11390, 11391, 1, - 10815), (11392, 11490, 2, 1),
      (11499, 11501, 2, 1), (11506, 11506, 1, 1), (42560, 42604, 2, 1), (42624, 42650, 2, 1),
      (42786, 42798, 2, 1), (42802, 42862, 2, 1), (42873, 42875, 2, 1),
      (42877, 42877, 1, - 35332), (42878, 42886, 2, 1), (42891, 42891, 1, 1),
      (42893, 42893, 1, - 42280), (42896, 42898, 2, 1), (42902, 42920, 2, 1),
      (42922, 42922, 1, - 42308), (42923, 42923, 1, - 42319), (42924, 42924, 1, - 42315),
      (42925, 42925, 1, - 42305), (42926, 42926, 1, - 42308), (42928, 42928, 1, - 42258),
      (42929, 42929, 1, - 42282), (42930, 42930, 1, - 42261), (42931, 42931, 1, 928),
      (42932, 42946, 2, 1), (42948, 42948, 1, - 48), (42949, 42949, 1, - 42307),
      (42950, 42950, 1, - 35384), (42951, 42953, 2, 1), (42960, 42960, 1, 1),
      (42966, 42968, 2, 1), (42997, 42997, 1, 1), (65313, 65338, 1, 32), (66560, 66599, 1, 40),
      (66736, 66771, 1, 40), (66928, 66938, 1, 39), (66940, 66954, 1, 39),
      (66956, 66962, 1, 39), (66964, 66965, 1, 39), (68736, 68786, 1, 64),
      (71840, 71871, 1, 32), (93760, 93791, 1, 32), (125184, 125217, 1, 34)]"

fun lower_in :: "(nat \<times> nat \<times> nat \<times> int) list \<Rightarrow> nat \<Rightarrow> nat" where
  "lower_in [] r = r"
| "lower_in ((lo, hi, step, delta) # rs) r =
     (if lo \<le> r \<and> r \<le> hi \<and> (r - lo) mod step = 0 then nat (int r + delta)
      else lower_in rs r)"

definition unicode_ToLower :: "nat \<Rightarrow> nat" where
  "unicode_ToLower r =
     (if r < 0x80 then (if 65 \<le> r \<and> r \<le> 90 then r + 32 else r)
      else lower_in lower_ranges r)"

definition lower_byte :: "char \<Rightarrow> char" where
  \<comment> \<open>\<open>c += 'a' - 'A'\<close> for \<open>'A' <= c && c <= 'Z'\<close>\<close>
  "lower_byte c =
     (case map_of (zip ''ABCDEFGHIJKLMNOPQRSTUVWXYZ'' ''abcdefghijklmnopqrstuvwxyz'') c of
        Some l \<Rightarrow> l
      | None \<Rightarrow> c)"

text \<open>
  \<open>strings.ToLower\<close> lower-cases an ASCII string byte by byte. Any other string goes
  through \<open>strings.Map(unicode.ToLower, s)\<close>, which writes the lower-cased code points
  in UTF-8; an invalid byte comes out as the three bytes of \<open>RuneError\<close>.
\<close>

definition ToLower :: "string \<Rightarrow> string" where
  "ToLower s =
     (if is_ascii s then map lower_byte s
      else concat (map (\<lambda>(r, bs). EncodeRune (unicode_ToLower r)) (runes s)))"

text \<open>
  \<open>strings.ReplaceAll s old new\<close> replaces the non-overlapping occurrences of \<open>old\<close>,
  found from left to right, by \<open>new\<close>; with an empty \<open>old\<close> it puts \<open>new\<close> before every
  UTF-8 sequence and at the end.
\<close>

fun HasPrefix :: "string \<Rightarrow> string \<Rightarrow> bool" where
  "HasPrefix s [] = True"
| "HasPrefix [] (p # ps) = False"
| "HasPrefix (c # cs) (p # ps) = (c = p \<and> HasPrefix cs ps)"

function replace_scan :: "string \<Rightarrow> string \<Rightarrow> string \<Rightarrow> string" where
  "replace_scan old new [] = []"
| "replace_scan old new (c # cs) =
     (if old \<noteq> [] \<and> HasPrefix (c # cs) old
      then new @ replace_scan old new (drop (length old) (c # cs))
      else c # replace_scan old new cs)"
  by pat_completeness auto
termination
  by (relation "measure (\<lambda>(old, new, s). length s)") (auto simp: neq_Nil_conv)

definition ReplaceAll :: "string \<Rightarrow> string \<Rightarrow> string \<Rightarrow> string" where
  "ReplaceAll s old new =
     (if old = [] then new @ concat (map (\<lambda>(r, bs). bs @ new) (runes s))
      else replace_scan old new s)"

text \<open>The scan for a pattern of two bytes, the shape of the pattern \<open>"pt"\<close> the program uses.\<close>

fun replace2 :: "char \<Rightarrow> char \<Rightarrow> string \<Rightarrow> string \<Rightarrow> string" where
  "replace2 a b new (c # d # cs) =
     (if c = a \<and> d = b then new @ replace2 a b new cs else c # replace2 a b new (d # cs))"
| "replace2 a b new [c] = [c]"
| "replace2 a b new [] = []"

lemma replace_scan_two:
  "replace_scan [a, b] new s = replace2 a b new s"
  by (induction a b new s rule: replace2.induct) auto

lemma ReplaceAll_pt:
  "ReplaceAll s ''pt'' new = replace2 CHR ''p'' CHR ''t'' new s"
  by (simp add: ReplaceAll_def replace_scan_two)

subsection \<open>\<open>float64\<close> arithmetic on non-negative values\<close>

text \<open>
  \<open>time.ParseDuration\<close> and the \<open>Duration\<close> methods compute in \<open>float64\<close>. A
  non-negative \<open>float64\<close> value is modelled exactly, as a fraction \<open>(n, d)\<close> of naturals,
  and every operation rounds its exact result to the nearest value with a 53-bit
  significand, ties to even (IEEE 754 binary64). The exponent is not bounded in the
  model. The values of \<open>Hours\<close>, \<open>Minutes\<close> and \<open>Seconds\<close> stay in the range of normal
  numbers. In \<open>ParseDuration\<close> only \<open>scale\<close> can leave it, after more than 300 digits
  of a fraction: where Go's \<open>scale\<close> is infinite, or \<open>unit / scale\<close> subnormal or zero,
  the product with the fraction's digits is below 1 with either exponent range, and
  \<open>uint64\<close> makes it 0. Negative durations are handled by sign and magnitude: each
  operation used is odd in its arguments.
\<close>

type_synonym f64 = "nat \<times> nat"

fun bit_len :: "nat \<Rightarrow> nat" where
  "bit_len n = (if n = 0 then 0 else Suc (bit_len (n div 2)))"

declare bit_len.simps [simp del]

definition rne_div :: "nat \<Rightarrow> nat \<Rightarrow> nat" where
  \<comment> \<open>\<open>n / d\<close> rounded to the nearest natural, ties to even\<close>
  "rne_div n d =
     (let q = n div d; r = n mod d
      in if 2 * r < d then q else if d < 2 * r then q + 1 else if even q then q else q + 1)"

definition ilog2 :: "nat \<Rightarrow> nat \<Rightarrow> int" where
  \<comment> \<open>\<open>\<lfloor>log\<^sub>2 (n / d)\<rfloor>\<close> for positive \<open>n\<close> and \<open>d\<close>\<close>
  "ilog2 n d =
     (let t = int (bit_len n) - int (bit_len d)
      in if (if 0 \<le> t then d * 2 ^ nat t \<le> n else d \<le> n * 2 ^ nat (- t)) then t else t - 1)"

definition round_f64 :: "nat \<Rightarrow> nat \<Rightarrow> f64" where
  "round_f64 n d =
     (if n = 0 then (0, 1)
      else let sh = ilog2 n d - 52
           in if 0 \<le> sh then (rne_div n (d * 2 ^ nat sh) * 2 ^ nat sh, 1)
              else (rne_div (n * 2 ^ nat (- sh)) d, 2 ^ nat (- sh)))"

definition f64_of_nat :: "nat \<Rightarrow> f64" where
  "f64_of_nat n = round_f64 n 1"

definition f64_add :: "f64 \<Rightarrow> f64 \<Rightarrow> f64" where
  "f64_add x y = round_f64 (fst x * snd y + fst y * snd x) (snd x * snd y)"

definition f64_mul :: "f64 \<Rightarrow> f64 \<Rightarrow> f64" where
  "f64_mul x y = round_f64 (fst x * fst y) (snd x * snd y)"

definition f64_div :: "f64 \<Rightarrow> f64 \<Rightarrow> f64" where
  "f64_div x y = round_f64 (fst x * snd y) (snd x * fst y)"

definition f64_trunc :: "f64 \<Rightarrow> nat" where
  \<comment> \<open>the conversions \<open>int(x)\<close> and \<open>uint64(x)\<close> drop the fraction\<close>
  "f64_trunc x = fst x div snd x"

subsection \<open>\<open>time.ParseDuration\<close>\<close>

datatype parse_error = InvalidDuration | MissingUnit | UnknownUnit string

definition Nanosecond :: nat where "Nanosecond = 1"
definition Microsecond :: nat where "Microsecond = 1000"
definition Millisecond :: nat where "Millisecond = 1000000"
definition Second :: nat where "Second = 1000000000"
definition Minute :: nat where "Minute = 60000000000"
definition Hour :: nat where "Hour = 3600000000000"

definition unitMap :: "string \<Rightarrow> nat option" where
  \<comment> \<open>the two spellings of the micro sign are the UTF-8 bytes of U+00B5 and U+03BC\<close>
  "unitMap u =
     (if u = ''ns'' then Some Nanosecond
      else if u = ''us'' then Some Microsecond
      else if u = [CHR 0xC2, CHR 0xB5, CHR ''s''] then Some Microsecond
      else if u = [CHR 0xCE, CHR 0xBC, CHR ''s''] then Some Microsecond
      else if u = ''ms'' then Some Millisecond
      else if u = ''s'' then Some Second
      else if u = ''m'' then Some Minute
      else if u = ''h'' then Some Hour
      else None)"

text \<open>
  \<open>leadingInt\<close> reads the digits at the front of \<open>s\<close> into a \<open>uint64\<close> and fails
  (\<^const>\<open>None\<close>) when the value passes \<open>1 << 63\<close>. The accumulator never wraps: it is at
  most \<open>(1 << 63) / 10\<close> before a digit is added.
\<close>

fun leadingInt_from :: "nat \<Rightarrow> string \<Rightarrow> (nat \<times> string) option" where
  "leadingInt_from x [] = Some (x, [])"
| "leadingInt_from x (c # cs) =
     (if \<not> is_digit c then Some (x, c # cs)
      else if x > 2 ^ 63 div 10 then None
      else let y = x * 10 + digit_val c
           in if y > 2 ^ 63 then None else leadingInt_from y cs)"

definition leadingInt :: "string \<Rightarrow> (nat \<times> string) option" where
  "leadingInt s = leadingInt_from 0 s"

text \<open>
  \<open>leadingFraction\<close> reads the digits after the decimal point; it never fails: once the
  value would overflow, the remaining digits are skipped. \<open>scale\<close> is a \<open>float64\<close>
  that is multiplied by 10 (\<open>scale *= 10\<close>), and so rounded, for every digit read into
  \<open>x\<close>; leading zeros leave \<open>x\<close> small, so their number is not bounded.
\<close>

fun leadingFraction_from :: "nat \<Rightarrow> f64 \<Rightarrow> bool \<Rightarrow> string \<Rightarrow> nat \<times> f64 \<times> string" where
  "leadingFraction_from x scale overflow [] = (x, scale, [])"
| "leadingFraction_from x scale overflow (c # cs) =
     (if \<not> is_digit c then (x, scale, c # cs)
      else if overflow then leadingFraction_from x scale overflow cs
      else if x > (2 ^ 63 - 1) div 10 then leadingFraction_from x scale True cs
      else let y = x * 10 + digit_val c
           in if y > 2 ^ 63 then leadingFraction_from x scale True cs
              else leadingFraction_from y (f64_mul scale (f64_of_nat 10)) overflow cs)"

definition leadingFraction :: "string \<Rightarrow> nat \<times> f64 \<times> string" where
  "leadingFraction s = leadingFraction_from 0 (f64_of_nat 1) False s"

definition unit_char :: "char \<Rightarrow> bool" where
  \<comment> \<open>the unit runs up to the next \<open>'.'\<close> or digit\<close>
  "unit_char c = (\<not> (c = CHR ''.'' \<or> is_digit c))"

text \<open>
  One turn of the loop of \<open>ParseDuration\<close>: a number, an optional fraction and a unit.
  It yields the nanoseconds of the component and the rest of the string. The loop runs
  it on a non-empty string only (\<open>for s != ""\<close>), so \<open>s[0]\<close> exists.
\<close>

definition parse_component :: "string \<Rightarrow> parse_error + (nat \<times> string)" where
  "parse_component s =
     (if \<not> (hd s = CHR ''.'' \<or> is_digit (hd s)) then Inl InvalidDuration
      else
       (case leadingInt s of
          None \<Rightarrow> Inl InvalidDuration
        | Some (v, s1) \<Rightarrow>
           (let pre = (length s \<noteq> length s1);
                dot = (s1 \<noteq> [] \<and> hd s1 = CHR ''.'');
                fr = (if dot then leadingFraction (tl s1) else (0, f64_of_nat 1, s1));
                f = fst fr; scale = fst (snd fr); s2 = snd (snd fr);
                post = (dot \<and> length (tl s1) \<noteq> length s2)
            in if \<not> pre \<and> \<not> post then Inl InvalidDuration
               else
                (let u = takeWhile unit_char s2; s3 = dropWhile unit_char s2
                 in if u = [] then Inl MissingUnit
                    else
                     (case unitMap u of
                        None \<Rightarrow> Inl (UnknownUnit u)
                      | Some unit \<Rightarrow>
                         (if v > 2 ^ 63 div unit then Inl InvalidDuration
                          else if f > 0 then
                            (let w = v * unit
                                   + f64_trunc (f64_mul (f64_of_nat f)
                                       (f64_div (f64_of_nat unit) scale))
                             in if w > 2 ^ 63 then Inl InvalidDuration else Inr (w, s3))
                          else Inr (v * unit, s3)))))))"

lemma leadingInt_from_length:
  "leadingInt_from x s = Some (v, r) \<Longrightarrow> length r \<le> length s"
  by (induction x s rule: leadingInt_from.induct) (auto simp: Let_def split: if_splits)

lemma leadingFraction_from_length:
  "leadingFraction_from x sc ov s = (f, sc', r) \<Longrightarrow> length r \<le> length s"
  by (induction x sc ov s rule: leadingFraction_from.induct) (auto simp: Let_def split: if_splits)

lemma dropWhile_shorter:
  "takeWhile P s \<noteq> [] \<Longrightarrow> length (dropWhile P s) < length s"
  by (cases s) (auto simp: less_Suc_eq_le length_dropWhile_le split: if_splits)

lemma parse_component_shorter:
  assumes "parse_component s = Inr (v, r)"
  shows "length r < length s"
proof -
  from assms obtain v0 s1 where li: "leadingInt s = Some (v0, s1)"
    by (auto simp: parse_component_def split: if_splits option.splits)
  define dot where "dot = (s1 \<noteq> [] \<and> hd s1 = CHR ''.'')"
  define fr where "fr = (if dot then leadingFraction (tl s1) else (0, f64_of_nat 1, s1))"
  define s2 where "s2 = snd (snd fr)"
  have l1: "length s1 \<le> length s"
    using li leadingInt_from_length by (simp add: leadingInt_def)
  have "length s2 \<le> length s1"
  proof (cases dot)
    case True
    obtain f sc r' where e: "leadingFraction (tl s1) = (f, sc, r')"
      by (cases "leadingFraction (tl s1)") auto
    then have "length r' \<le> length (tl s1)"
      using leadingFraction_from_length [of 0 "f64_of_nat 1" False "tl s1" f sc r']
      by (simp add: leadingFraction_def)
    with True e show ?thesis by (simp add: s2_def fr_def)
  next
    case False
    then show ?thesis by (simp add: s2_def fr_def)
  qed
  moreover have "takeWhile unit_char s2 \<noteq> [] \<and> r = dropWhile unit_char s2"
    using assms li
    by (auto simp: parse_component_def Let_def s2_def fr_def dot_def
        split: if_splits option.splits)
  ultimately show ?thesis
    using l1 dropWhile_shorter [of unit_char s2] by simp
qed

text \<open>
  The loop adds the components in a \<open>uint64\<close>; the sum of two values of at most
  \<open>1 << 63\<close> can reach \<open>1 << 64\<close>, where it wraps.
\<close>

function parse_loop :: "nat \<Rightarrow> string \<Rightarrow> parse_error + nat" where
  "parse_loop d s =
     (if s = [] then Inr d
      else
       (case parse_component s of
          Inl e \<Rightarrow> Inl e
        | Inr (v, rest) \<Rightarrow>
           (let d' = (d + v) mod 2 ^ 64
            in if d' > 2 ^ 63 then Inl InvalidDuration else parse_loop d' rest)))"
  by pat_completeness auto
termination
  by (relation "measure (\<lambda>(d, s). length s)") (auto dest: parse_component_shorter)

declare parse_loop.simps [simp del]

text \<open>
  \<open>ParseDuration\<close> returns a \<open>Duration\<close> (nanoseconds, \<open>int64\<close>) and an error; every
  error comes with the duration 0.
\<close>

definition ParseDuration :: "string \<Rightarrow> int \<times> parse_error option" where
  "ParseDuration orig =
     (let neg = (orig \<noteq> [] \<and> hd orig = CHR ''-'');
          s = (if orig \<noteq> [] \<and> (hd orig = CHR ''-'' \<or> hd orig = CHR ''+'') then tl orig else orig)
      in if s = ''0'' then (0, None)
         else if s = [] then (0, Some InvalidDuration)
         else
          (case parse_loop 0 s of
             Inl e \<Rightarrow> (0, Some e)
           | Inr d \<Rightarrow>
              (if neg then (- int d, None)
               else if d > 2 ^ 63 - 1 then (0, Some InvalidDuration)
               else (int d, None))))"

subsection \<open>\<open>Duration.Hours\<close>, \<open>Minutes\<close>, \<open>Seconds\<close> and the conversion to \<open>int\<close>\<close>

text \<open>
  \<open>d.Hours()\<close> is \<open>float64(d / Hour) + float64(d % Hour) / (60 * 60 * 1e9)\<close>, and the
  other two likewise. Go's \<open>/\<close> and \<open>%\<close> truncate towards zero, and so does \<open>int(x)\<close>, so
  the value at a negative duration is the negated value at its magnitude.
\<close>

definition whole_units :: "nat \<Rightarrow> nat \<Rightarrow> nat" where
  \<comment> \<open>\<open>int(float64(n / unit) + float64(n % unit) / float64(unit))\<close> for \<open>n \<ge> 0\<close>\<close>
  "whole_units unit n =
     f64_trunc (f64_add (f64_of_nat (n div unit))
                        (f64_div (f64_of_nat (n mod unit)) (f64_of_nat unit)))"

definition int_Hours :: "int \<Rightarrow> int" where
  "int_Hours d = sgn d * int (whole_units Hour (nat \<bar>d\<bar>))"

definition int_Minutes :: "int \<Rightarrow> int" where
  "int_Minutes d = sgn d * int (whole_units Minute (nat \<bar>d\<bar>))"

definition int_Seconds :: "int \<Rightarrow> int" where
  "int_Seconds d = sgn d * int (whole_units Second (nat \<bar>d\<bar>))"

definition go_rem :: "int \<Rightarrow> int \<Rightarrow> int" where
  \<comment> \<open>Go's \<open>%\<close>: the remainder has the sign of the dividend\<close>
  "go_rem a b = sgn a * (\<bar>a\<bar> mod \<bar>b\<bar>)"

subsection \<open>\<open>fmt.Sprintf\<close>\<close>

fun decimal :: "nat \<Rightarrow> string" where
  "decimal n =
     (if n < 10 then [''0123456789'' ! n]
      else decimal (n div 10) @ [''0123456789'' ! (n mod 10)])"

declare decimal.simps [simp del]

definition fmt_d :: "int \<Rightarrow> string" where
  \<comment> \<open>the verb \<open>%d\<close>\<close>
  "fmt_d n = (if n < 0 then CHR ''-'' # decimal (nat (- n)) else decimal (nat n))"

definition fmt_02d :: "int \<Rightarrow> string" where
  \<comment> \<open>the verb \<open>%02d\<close>: zeros pad to width 2, and the sign counts in the width\<close>
  "fmt_02d n =
     (if n < 0 then CHR ''-'' # decimal (nat (- n))
      else if n < 10 then CHR ''0'' # decimal (nat n)
      else decimal (nat n))"

section \<open>\<open>formatDuration\<close>\<close>

definition formatDuration :: "string \<Rightarrow> string" where
  "formatDuration duration =
     (let d = fst (ParseDuration (ReplaceAll (ToLower duration) ''pt'' ''''));
          hours = int_Hours d;
          minutes = go_rem (int_Minutes d) 60;
          seconds = go_rem (int_Seconds d) 60
      in if hours > 0 then fmt_d hours @ '':'' @ fmt_02d minutes @ '':'' @ fmt_02d seconds
         else fmt_d minutes @ '':'' @ fmt_02d seconds)"

definition parsed :: "string \<Rightarrow> int" where
  \<comment> \<open>the \<open>d\<close> of \<open>formatDuration\<close>: the parse error is dropped (\<open>d, _ := ...\<close>)\<close>
  "parsed duration = fst (ParseDuration (ReplaceAll (ToLower duration) ''pt'' ''''))"

definition malformed :: "string \<Rightarrow> bool" where
  \<comment> \<open>the parse inside \<open>formatDuration\<close> returns an error\<close>
  "malformed duration = (snd (ParseDuration (ReplaceAll (ToLower duration) ''pt'' '''')) \<noteq> None)"

definition pad2 :: "nat \<Rightarrow> string" where
  \<comment> \<open>a number below 100 written with exactly two digits\<close>
  "pad2 n = [''0123456789'' ! (n div 10), ''0123456789'' ! (n mod 10)]"

fun contains2 :: "char \<Rightarrow> char \<Rightarrow> string \<Rightarrow> bool" where
  "contains2 a b (c # d # cs) = ((c = a \<and> d = b) \<or> contains2 a b (d # cs))"
| "contains2 a b [c] = False"
| "contains2 a b [] = False"

definition strip_PT_prefix_spec :: "string \<Rightarrow> string" where
  \<comment> \<open>the reading of the specification: one case-insensitive \<open>PT\<close> prefix is stripped\<close>
  "strip_PT_prefix_spec duration =
     (let l = ToLower duration in if take 2 l = ''pt'' then drop 2 l else l)"

section \<open>The YouTube client\<close>

text \<open>
  The client library and the service behind it are external. A response is modelled by
  the fields the program reads; a field of pointer type is an \<^typ>\<open>'a option\<close>
  (\<^const>\<open>None\<close> is \<open>nil\<close>), and reading through a \<open>nil\<close> pointer panics. The service is a
  pair of functions from a request to an error or the items of the response.
\<close>

type_synonym err = string

datatype panic = NilPointerDereference

record ResourceId =
  VideoId :: string

record SearchResult =
  sr_Id :: "ResourceId option"

record VideoSnippet =
  Title :: string
  ChannelTitle :: string

record VideoContentDetails =
  Duration :: string

record Video =
  v_Id :: string
  Snippet :: "VideoSnippet option"
  ContentDetails :: "VideoContentDetails option"

record SearchListCall =
  sl_part :: "string list"
  sl_Q :: string
  sl_MaxResults :: int
  sl_Type :: string

record VideosListCall =
  vl_part :: "string list"
  vl_Id :: "string list"

record youtube =
  NewService :: "string \<Rightarrow> err option"
  Search_Do :: "string \<Rightarrow> SearchListCall \<Rightarrow> err + SearchResult list"
  Videos_Do :: "string \<Rightarrow> VideosListCall \<Rightarrow> err + Video list"

datatype call = NewServiceCall string | SearchCall SearchListCall | VideosCall VideosListCall

record effects =
  calls :: "call list"
  stdout :: "string list"

fun Join :: "string list \<Rightarrow> string \<Rightarrow> string" where
  "Join [] sep = []"
| "Join [a] sep = a"
| "Join (a # b # r) sep = a @ sep @ Join (b # r) sep"

definition Println :: "string \<Rightarrow> err \<Rightarrow> string" where
  \<comment> \<open>\<open>fmt.Println(msg, err)\<close>: the operands with a space between them\<close>
  "Println msg e = msg @ '' '' @ e"

section \<open>\<open>searchYouTube\<close>\<close>

type_synonym video = "string \<rightharpoonup> string"

fun collect_ids :: "string list \<Rightarrow> SearchResult list \<Rightarrow> panic + string list" where
  \<comment> \<open>\<open>for _, item := range searchResponse.Items { videoIDs = append(videoIDs, item.Id.VideoId) }\<close>\<close>
  "collect_ids videoIDs [] = Inr videoIDs"
| "collect_ids videoIDs (item # items) =
     (case sr_Id item of
        None \<Rightarrow> Inl NilPointerDereference
      | Some rid \<Rightarrow> collect_ids (videoIDs @ [VideoId rid]) items)"

definition video_of :: "Video \<Rightarrow> panic + video" where
  "video_of item =
     (case Snippet item of
        None \<Rightarrow> Inl NilPointerDereference
      | Some sn \<Rightarrow>
         (case ContentDetails item of
            None \<Rightarrow> Inl NilPointerDereference
          | Some cd \<Rightarrow>
              Inr [''id'' \<mapsto> v_Id item,
                   ''title'' \<mapsto> Title sn,
                   ''channel'' \<mapsto> ChannelTitle sn,
                   ''duration'' \<mapsto> formatDuration (Duration cd)]))"

fun build_videos :: "video list \<Rightarrow> Video list \<Rightarrow> panic + video list" where
  \<comment> \<open>\<open>for _, item := range detailsResponse.Items { ...; videos = append(videos, video) }\<close>\<close>
  "build_videos videos [] = Inr videos"
| "build_videos videos (item # items) =
     (case video_of item of
        Inl p \<Rightarrow> Inl p
      | Inr video \<Rightarrow> build_videos (videos @ [video]) items)"

definition searchYouTube :: "youtube \<Rightarrow> string \<Rightarrow> string \<Rightarrow> effects \<times> (panic + video list)" where
  "searchYouTube yt apiKey query =
     (case NewService yt apiKey of
        Some e \<Rightarrow>
          (\<lparr>calls = [NewServiceCall apiKey],
            stdout = [Println ''Error initializing YouTube service:'' e]\<rparr>, Inr [])
      | None \<Rightarrow>
         (let searchCall = \<lparr>sl_part = [''id'', ''snippet''], sl_Q = query,
                             sl_MaxResults = 10, sl_Type = ''video''\<rparr>
          in case Search_Do yt apiKey searchCall of
               Inl e \<Rightarrow>
                 (\<lparr>calls = [NewServiceCall apiKey, SearchCall searchCall],
                   stdout = [Println ''Error searching YouTube:'' e]\<rparr>, Inr [])
             | Inr searchItems \<Rightarrow>
                (case collect_ids [] searchItems of
                   Inl p \<Rightarrow>
                     (\<lparr>calls = [NewServiceCall apiKey, SearchCall searchCall], stdout = []\<rparr>,
                      Inl p)
                 | Inr videoIDs \<Rightarrow>
                    (let detailsCall = \<lparr>vl_part = [''snippet'', ''contentDetails''],
                                         vl_Id = [Join videoIDs '','']\<rparr>;
                         cs = [NewServiceCall apiKey, SearchCall searchCall,
                               VideosCall detailsCall]
                     in case Videos_Do yt apiKey detailsCall of
                          Inl e \<Rightarrow>
                            (\<lparr>calls = cs,
                              stdout = [Println ''Error fetching video details:'' e]\<rparr>, Inr [])
                        | Inr detailItems \<Rightarrow>
                            (\<lparr>calls = cs, stdout = []\<rparr>, build_videos [] detailItems)))))"

section \<open>The handlers\<close>

datatype any = Videos "video list" | Str string

datatype response =
  String_response nat string
| HTML_response nat string "string \<rightharpoonup> any"

definition StatusOK :: nat where "StatusOK = 200"
definition StatusNotFound :: nat where "StatusNotFound = 404"

definition PostForm :: "(string \<rightharpoonup> string) \<Rightarrow> string \<Rightarrow> string" where
  \<comment> \<open>the value of the form field, or the empty string\<close>
  "PostForm form key = (case form key of None \<Rightarrow> [] | Some v \<Rightarrow> v)"

definition Param :: "(string \<rightharpoonup> string) \<Rightarrow> string \<Rightarrow> string" where
  \<comment> \<open>the value of the URL parameter, or the empty string\<close>
  "Param params key = (case params key of None \<Rightarrow> [] | Some v \<Rightarrow> v)"

definition showHomePage :: response where
  "showHomePage = HTML_response StatusOK ''index.html'' Map.empty"

definition handleSearch ::
  "youtube \<Rightarrow> string \<Rightarrow> (string \<rightharpoonup> string) \<Rightarrow> effects \<times> (panic + response)" where
  "handleSearch yt apiKey form =
     (let query = PostForm form ''query'';
          r = searchYouTube yt apiKey query
      in case snd r of
           Inl p \<Rightarrow> (fst r, Inl p)
         | Inr videos \<Rightarrow>
             if length videos = 0
             then (fst r, Inr (String_response StatusNotFound ''No videos found.''))
             else (fst r, Inr (HTML_response StatusOK ''results.html''
                                 [''Videos'' \<mapsto> Videos videos])))"

definition embedVideo :: "(string \<rightharpoonup> string) \<Rightarrow> response" where
  "embedVideo params =
     (let videoID = Param params ''id'';
          embedURL = ''https://www.youtube.com/embed/'' @ videoID
      in HTML_response StatusOK ''embed.html'' [''EmbedURL'' \<mapsto> Str embedURL])"

section \<open>Startup\<close>

text \<open>
  What \<open>main\<close> finds when the process starts: the \<open>.env\<close> file (\<^const>\<open>None\<close> when
  \<open>godotenv.Load\<close> fails, as it does when the file is absent), the environment of the
  process, whether \<open>templates/*\<close> loads, and the SQL driver that \<open>InitDB\<close> of package
  \<open>database\<close> would use.
\<close>

record sql_driver =
  sql_Open :: "string \<Rightarrow> err option"
  ExecContext :: "string \<Rightarrow> string \<Rightarrow> err option"

definition create_comments :: string where
  "create_comments = ''CREATE TABLE IF NOT EXISTS comments''"

definition InitDB :: "sql_driver \<Rightarrow> string \<Rightarrow> err option" where
  \<comment> \<open>\<^const>\<open>None\<close> is the \<open>nil\<close> error\<close>
  "InitDB drv dbPath =
     (case sql_Open drv dbPath of
        Some e \<Rightarrow> Some e
      | None \<Rightarrow>
         (case ExecContext drv dbPath create_comments of
            Some e \<Rightarrow> Some e
          | None \<Rightarrow> None))"

record startup =
  dotenv :: "(string \<times> string) list option"
  environ :: "string \<rightharpoonup> string"
  templates_load :: bool
  driver :: sql_driver

text \<open>
  \<open>godotenv.Load\<close> reads the file into a map, so the last assignment of a variable is
  the one that counts, and sets every variable of the map that the environment did not
  hold when the load began.
\<close>

definition godotenv_Load :: "(string \<times> string) list \<Rightarrow> (string \<rightharpoonup> string) \<Rightarrow> (string \<rightharpoonup> string)" where
  "godotenv_Load kvs env =
     (\<lambda>k. case env k of Some v \<Rightarrow> Some v | None \<Rightarrow> map_of (rev kvs) k)"

definition Getenv :: "(string \<rightharpoonup> string) \<Rightarrow> string \<Rightarrow> string" where
  \<comment> \<open>\<open>os.Getenv\<close>: the empty string for a variable that is not set\<close>
  "Getenv env key = (case env key of None \<Rightarrow> [] | Some v \<Rightarrow> v)"

datatype route = Home | Search string | Embed

datatype exit =
  Fatal string
| Panicked
| Serving string "(string \<times> string \<times> route) list"

definition main :: "startup \<Rightarrow> exit" where
  "main st =
     (case dotenv st of
        None \<Rightarrow> Fatal ''Error loading .env file''
      | Some kvs \<Rightarrow>
         (let apiKey = Getenv (godotenv_Load kvs (environ st)) ''YOUTUBE_API_KEY''
          in if apiKey = [] then Fatal ''YouTube API key not found in environment''
             else if \<not> templates_load st then Panicked
             else Serving '':8080''
                    [(''GET'', ''/'', Home),
                     (''POST'', ''/search'', Search apiKey),
                     (''GET'', ''/embed/:id'', Embed)]))"

section \<open>Example inputs\<close>

definition working_driver :: sql_driver where
  "working_driver = \<lparr>sql_Open = (\<lambda>p. None), ExecContext = (\<lambda>p q. None)\<rparr>"

definition broken_driver :: sql_driver where
  "broken_driver =
     \<lparr>sql_Open = (\<lambda>p. Some ''unable to open database file''), ExecContext = (\<lambda>p q. None)\<rparr>"

definition startup_without_dotenv :: startup where
  "startup_without_dotenv =
     \<lparr>dotenv = None, environ = [''YOUTUBE_API_KEY'' \<mapsto> ''key-1''],
      templates_load = True, driver = working_driver\<rparr>"

definition startup_without_key :: startup where
  "startup_without_key =
     \<lparr>dotenv = Some [(''PORT'', ''8080'')], environ = [''HOME'' \<mapsto> ''/root''],
      templates_load = True, driver = working_driver\<rparr>"

definition startup_with_broken_storage :: startup where
  "startup_with_broken_storage =
     \<lparr>dotenv = Some [(''YOUTUBE_API_KEY'', ''key-1'')], environ = Map.empty,
      templates_load = True, driver = broken_driver\<rparr>"

definition two_ids :: "string list" where
  "two_ids = [''dQw4w9WgXcQ'', ''9bZkp7q19f0'']"

definition two_rows :: "(string \<times> string \<times> string \<times> string) list" where
  "two_rows =
     [(''9bZkp7q19f0'', ''Gangnam Style'', ''officialpsy'', ''PT4M13S''),
      (''dQw4w9WgXcQ'', ''Never Gonna Give You Up'', ''Rick Astley'', ''PT1H2M3S'')]"

section \<open>The embed handler\<close>

text \<open>
  Claim C8. For every identifier bound to the path parameter \<open>id\<close>, the embed handler
  renders \<open>embed.html\<close> with the URL \<open>https://www.youtube.com/embed/\<close> followed by the
  identifier, whatever the identifier is; for \<open>abc123\<close> the URL is exactly
  \<open>https://www.youtube.com/embed/abc123\<close>.
\<close>

theorem embedVideo_url:
  "embedVideo (params(''id'' \<mapsto> videoID)) =
     HTML_response StatusOK ''embed.html''
       [''EmbedURL'' \<mapsto> Str (''https://www.youtube.com/embed/'' @ videoID)]
   \<and> embedVideo [''id'' \<mapsto> ''abc123''] =
     HTML_response 200 ''embed.html'' [''EmbedURL'' \<mapsto> Str ''https://www.youtube.com/embed/abc123'']"
  by (simp add: embedVideo_def Param_def StatusOK_def)

section \<open>Startup without a \<open>.env\<close> file\<close>

text \<open>
  Claim C10. When loading the \<open>.env\<close> file fails, \<open>main\<close> ends in \<open>log.Fatal\<close> with the
  message of that failure, before it reads the environment: the outcome is the same
  whatever the environment holds, also when it holds the credential.
\<close>

theorem main_dotenv_failure:
  assumes "dotenv st = None"
  shows "main st = Fatal ''Error loading .env file''
         \<and> (\<forall>env. main (st\<lparr>environ := env\<rparr>) = Fatal ''Error loading .env file'')"
  using assms by (simp add: main_def)

theorem main_dotenv_failure_witness:
  "dotenv startup_without_dotenv = None
   \<and> environ startup_without_dotenv ''YOUTUBE_API_KEY'' = Some ''key-1''
   \<and> main startup_without_dotenv = Fatal ''Error loading .env file''"
  using main_dotenv_failure [of startup_without_dotenv]
  by (simp add: startup_without_dotenv_def)

section \<open>The search adapter\<close>

definition search_item :: "string \<Rightarrow> SearchResult" where
  \<comment> \<open>a search result that carries its identifier\<close>
  "search_item v = \<lparr>sr_Id = Some \<lparr>VideoId = v\<rparr>\<rparr>"

definition detail_item :: "string \<times> string \<times> string \<times> string \<Rightarrow> Video" where
  \<comment> \<open>a detail item that carries the two parts requested\<close>
  "detail_item row =
     (case row of (i, t, c, d) \<Rightarrow>
        \<lparr>v_Id = i, Snippet = Some \<lparr>Title = t, ChannelTitle = c\<rparr>,
         ContentDetails = Some \<lparr>Duration = d\<rparr>\<rparr>)"

definition VideoRecord :: "string \<times> string \<times> string \<times> string \<Rightarrow> video" where
  \<comment> \<open>the record the specification asks for, from identifier, title, channel and raw duration\<close>
  "VideoRecord row =
     (case row of (i, t, c, d) \<Rightarrow>
        [''id'' \<mapsto> i, ''title'' \<mapsto> t, ''channel'' \<mapsto> c, ''duration'' \<mapsto> formatDuration d])"

definition search_request :: "string \<Rightarrow> SearchListCall" where
  "search_request query =
     \<lparr>sl_part = [''id'', ''snippet''], sl_Q = query, sl_MaxResults = 10, sl_Type = ''video''\<rparr>"

definition details_request :: "string list \<Rightarrow> VideosListCall" where
  "details_request ids = \<lparr>vl_part = [''snippet'', ''contentDetails''], vl_Id = [Join ids '','']\<rparr>"

definition two_videos :: youtube where
  "two_videos =
     \<lparr>NewService = (\<lambda>k. None),
      Search_Do = (\<lambda>k c. Inr (map search_item two_ids)),
      Videos_Do = (\<lambda>k c. Inr (map detail_item two_rows))\<rparr>"

definition search_down :: youtube where
  "search_down =
     \<lparr>NewService = (\<lambda>k. None),
      Search_Do = (\<lambda>k c. Inl ''googleapi: Error 403: quotaExceeded''),
      Videos_Do = (\<lambda>k c. Inr (map detail_item two_rows))\<rparr>"

definition ten_ids :: "string list" where
  "ten_ids = [''v01'', ''v02'', ''v03'', ''v04'', ''v05'', ''v06'', ''v07'', ''v08'', ''v09'', ''v10'']"

definition twelve_rows :: "(string \<times> string \<times> string \<times> string) list" where
  "twelve_rows =
     map (\<lambda>i. (i, ''a title'', ''a channel'', ''PT1M''))
       (ten_ids @ [''v11'', ''v12''])"

definition twelve_details :: youtube where
  \<comment> \<open>a service that answers a lookup of ten identifiers with twelve items\<close>
  "twelve_details =
     \<lparr>NewService = (\<lambda>k. None),
      Search_Do = (\<lambda>k c. Inr (map search_item ten_ids)),
      Videos_Do = (\<lambda>k c. Inr (map detail_item twelve_rows))\<rparr>"

definition no_snippet :: youtube where
  \<comment> \<open>a service whose detail item comes without the snippet part\<close>
  "no_snippet =
     \<lparr>NewService = (\<lambda>k. None),
      Search_Do = (\<lambda>k c. Inr (map search_item two_ids)),
      Videos_Do = (\<lambda>k c. Inr [\<lparr>v_Id = ''dQw4w9WgXcQ'', Snippet = None,
                                  ContentDetails = Some \<lparr>Duration = ''PT3M33S''\<rparr>\<rparr>])\<rparr>"

definition has_Id :: "SearchResult \<Rightarrow> bool" where
  "has_Id item = (sr_Id item \<noteq> None)"

definition ids_of :: "SearchResult list \<Rightarrow> string list" where
  \<comment> \<open>the video identifiers of search results, in their order\<close>
  "ids_of items = map (\<lambda>item. case sr_Id item of None \<Rightarrow> [] | Some rid \<Rightarrow> VideoId rid) items"

definition has_parts :: "Video \<Rightarrow> bool" where
  "has_parts item = (Snippet item \<noteq> None \<and> ContentDetails item \<noteq> None)"

definition record_of :: "Video \<Rightarrow> video" where
  \<comment> \<open>the record of a detail item that has its parts\<close>
  "record_of item =
     (case (Snippet item, ContentDetails item) of
        (Some sn, Some cd) \<Rightarrow>
          [''id'' \<mapsto> v_Id item, ''title'' \<mapsto> Title sn, ''channel'' \<mapsto> ChannelTitle sn,
           ''duration'' \<mapsto> formatDuration (Duration cd)]
      | _ \<Rightarrow> Map.empty)"

lemma collect_ids_items:
  "collect_ids acc (map search_item ids) = Inr (acc @ ids)"
  by (induction ids arbitrary: acc) (simp_all add: search_item_def)

lemma video_of_item:
  "video_of (detail_item row) = Inr (VideoRecord row)"
  by (cases row) (simp add: video_of_def detail_item_def VideoRecord_def)

lemma build_videos_items:
  "build_videos acc (map detail_item rows) = Inr (acc @ map VideoRecord rows)"
  by (induction rows arbitrary: acc) (simp_all add: video_of_item)

lemma collect_ids_any:
  "collect_ids acc items =
     (if list_all has_Id items then Inr (acc @ ids_of items) else Inl NilPointerDereference)"
  by (induction items arbitrary: acc) (auto simp: has_Id_def ids_of_def split: option.splits)

lemma video_of_any:
  "video_of item = (if has_parts item then Inr (record_of item) else Inl NilPointerDereference)"
  by (auto simp: video_of_def has_parts_def record_of_def split: option.splits)

lemma build_videos_any:
  "build_videos acc items =
     (if list_all has_parts items then Inr (acc @ map record_of items)
      else Inl NilPointerDereference)"
  by (induction items arbitrary: acc) (simp_all add: video_of_any)

lemma build_videos_duration:
  "build_videos acc items = Inr vs \<Longrightarrow>
   \<forall>v \<in> set acc. \<exists>raw. v ''duration'' = Some (formatDuration raw) \<Longrightarrow>
   \<forall>v \<in> set vs. \<exists>raw. v ''duration'' = Some (formatDuration raw)"
proof (induction items arbitrary: acc)
  case Nil
  then show ?case by simp
next
  case (Cons item items)
  from Cons.prems(1) obtain video where v: "video_of item = Inr video"
    and b: "build_videos (acc @ [video]) items = Inr vs"
    by (auto split: sum.splits)
  from v have "\<exists>raw. video ''duration'' = Some (formatDuration raw)"
    by (auto simp: video_of_def split: option.splits)
  with Cons.prems(2) have "\<forall>v \<in> set (acc @ [video]). \<exists>raw. v ''duration'' = Some (formatDuration raw)"
    by auto
  with Cons.IH [OF b] show ?case .
qed

lemma searchYouTube_duration:
  assumes "snd (searchYouTube yt apiKey query) = Inr vs"
  shows "\<forall>v \<in> set vs. \<exists>raw. v ''duration'' = Some (formatDuration raw)"
proof -
  have "vs = [] \<or> (\<exists>items. build_videos [] items = Inr vs)"
    using assms
    by (auto simp: searchYouTube_def Let_def split: option.splits sum.splits)
  then show ?thesis
    using build_videos_duration [of "[]" _ vs] by auto
qed

lemma searchYouTube_success:
  assumes "NewService yt apiKey = None"
    and "Search_Do yt apiKey (search_request query) = Inr (map search_item ids)"
    and "Videos_Do yt apiKey (details_request ids) = Inr (map detail_item rows)"
  shows "searchYouTube yt apiKey query =
           (\<lparr>calls = [NewServiceCall apiKey, SearchCall (search_request query),
                      VideosCall (details_request ids)],
             stdout = []\<rparr>,
            Inr (map VideoRecord rows))"
  using assms
  by (simp add: searchYouTube_def Let_def search_request_def details_request_def
      collect_ids_items build_videos_items)

lemma searchYouTube_any:
  assumes "NewService yt apiKey = None"
    and "Search_Do yt apiKey (search_request query) = Inr searchItems"
  shows "snd (searchYouTube yt apiKey query) =
           (if \<not> list_all has_Id searchItems then Inl NilPointerDereference
            else case Videos_Do yt apiKey (details_request (ids_of searchItems)) of
                   Inl e \<Rightarrow> Inr []
                 | Inr detailItems \<Rightarrow>
                     if list_all has_parts detailItems then Inr (map record_of detailItems)
                     else Inl NilPointerDereference)"
  using assms
  by (simp add: searchYouTube_def Let_def search_request_def details_request_def
      collect_ids_any build_videos_any split: sum.splits)

lemma two_videos_search:
  "Search_Do two_videos k (search_request q) = Inr (map search_item two_ids)"
  by (simp add: two_videos_def)

lemma two_videos_details:
  "Videos_Do two_videos k (details_request two_ids) = Inr (map detail_item two_rows)"
  by (simp add: two_videos_def)

lemma has_Id_search_item: "list_all has_Id (map search_item ids)"
  by (induction ids) (simp_all add: has_Id_def search_item_def)

lemma ids_of_search_item: "ids_of (map search_item ids) = ids"
  by (induction ids) (simp_all add: ids_of_def search_item_def)

lemma has_parts_detail_item: "list_all has_parts (map detail_item rows)"
  by (induction rows) (auto simp: has_parts_def detail_item_def)

lemma record_of_detail_item: "record_of (detail_item row) = VideoRecord row"
  by (cases row) (simp add: record_of_def detail_item_def VideoRecord_def)

text \<open>
  Claim C1, as the code has it. When the client is built, both calls succeed and the
  items of the two responses carry the parts the code reads, \<open>searchYouTube\<close> returns
  exactly one record for each item of the details response, in the order of that
  response, with the item's identifier, title and channel and with \<open>formatDuration\<close>
  of its raw duration. The number of records is the number of detail items: the code
  asks the search for at most 10 results and cuts nothing off. When the client cannot
  be built, or the search call or the details call fails, it returns the empty
  sequence. When an item lacks a part the code reads (a \<open>nil\<close> \<open>Id\<close>, \<open>Snippet\<close> or
  \<open>ContentDetails\<close>), the call panics and returns nothing.
\<close>

theorem searchYouTube_records:
  "(NewService yt apiKey = Some e \<longrightarrow> snd (searchYouTube yt apiKey query) = Inr [])
   \<and> (Search_Do yt apiKey (search_request query) = Inl e \<longrightarrow>
        snd (searchYouTube yt apiKey query) = Inr [])
   \<and> (NewService yt apiKey = None \<longrightarrow>
        SearchCall (search_request query) \<in> set (calls (fst (searchYouTube yt apiKey query)))
        \<and> sl_MaxResults (search_request query) = 10)
   \<and> (NewService yt apiKey = None
        \<and> Search_Do yt apiKey (search_request query) = Inr searchItems \<longrightarrow>
        (\<not> list_all has_Id searchItems \<longrightarrow>
           snd (searchYouTube yt apiKey query) = Inl NilPointerDereference)
        \<and> (list_all has_Id searchItems
            \<and> Videos_Do yt apiKey (details_request (ids_of searchItems)) = Inl e \<longrightarrow>
           snd (searchYouTube yt apiKey query) = Inr [])
        \<and> (list_all has_Id searchItems
            \<and> Videos_Do yt apiKey (details_request (ids_of searchItems)) = Inr detailItems \<longrightarrow>
           (list_all has_parts detailItems \<longrightarrow>
              snd (searchYouTube yt apiKey query) = Inr (map record_of detailItems)
              \<and> length (map record_of detailItems) = length detailItems)
           \<and> (\<not> list_all has_parts detailItems \<longrightarrow>
              snd (searchYouTube yt apiKey query) = Inl NilPointerDereference)))
   \<and> (Snippet item = Some sn \<and> ContentDetails item = Some cd \<longrightarrow>
        record_of item =
          [''id'' \<mapsto> v_Id item, ''title'' \<mapsto> Title sn, ''channel'' \<mapsto> ChannelTitle sn,
           ''duration'' \<mapsto> formatDuration (Duration cd)])"
proof -
  have a: "NewService yt apiKey = Some e \<longrightarrow> snd (searchYouTube yt apiKey query) = Inr []"
    by (simp add: searchYouTube_def)
  have b: "Search_Do yt apiKey (search_request query) = Inl e \<longrightarrow>
        snd (searchYouTube yt apiKey query) = Inr []"
    by (simp add: searchYouTube_def search_request_def split: option.splits)
  have m: "NewService yt apiKey = None \<longrightarrow>
        SearchCall (search_request query) \<in> set (calls (fst (searchYouTube yt apiKey query)))
        \<and> sl_MaxResults (search_request query) = 10"
    by (simp add: searchYouTube_def search_request_def Let_def split: sum.splits)
  have c: "NewService yt apiKey = None
        \<and> Search_Do yt apiKey (search_request query) = Inr searchItems \<longrightarrow>
        (\<not> list_all has_Id searchItems \<longrightarrow>
           snd (searchYouTube yt apiKey query) = Inl NilPointerDereference)
        \<and> (list_all has_Id searchItems
            \<and> Videos_Do yt apiKey (details_request (ids_of searchItems)) = Inl e \<longrightarrow>
           snd (searchYouTube yt apiKey query) = Inr [])
        \<and> (list_all has_Id searchItems
            \<and> Videos_Do yt apiKey (details_request (ids_of searchItems)) = Inr detailItems \<longrightarrow>
           (list_all has_parts detailItems \<longrightarrow>
              snd (searchYouTube yt apiKey query) = Inr (map record_of detailItems)
              \<and> length (map record_of detailItems) = length detailItems)
           \<and> (\<not> list_all has_parts detailItems \<longrightarrow>
              snd (searchYouTube yt apiKey query) = Inl NilPointerDereference))"
    using searchYouTube_any [of yt apiKey query searchItems] by auto
  have d: "Snippet item = Some sn \<and> ContentDetails item = Some cd \<longrightarrow>
        record_of item =
          [''id'' \<mapsto> v_Id item, ''title'' \<mapsto> Title sn, ''channel'' \<mapsto> ChannelTitle sn,
           ''duration'' \<mapsto> formatDuration (Duration cd)]"
    by (simp add: record_of_def)
  from a b m c d show ?thesis by blast
qed

theorem searchYouTube_records_witness:
  "NewService two_videos ''key-1'' = None
   \<and> Search_Do two_videos ''key-1'' (search_request ''cats'') = Inr (map search_item two_ids)
   \<and> list_all has_Id (map search_item two_ids)
   \<and> Videos_Do two_videos ''key-1'' (details_request (ids_of (map search_item two_ids))) =
       Inr (map detail_item two_rows)
   \<and> list_all has_parts (map detail_item two_rows)
   \<and> snd (searchYouTube two_videos ''key-1'' ''cats'') =
       Inr (map record_of (map detail_item two_rows))
   \<and> map record_of (map detail_item two_rows) = map VideoRecord two_rows
   \<and> length (map record_of (map detail_item two_rows)) = 2"
  using searchYouTube_records [of two_videos "''key-1''" "''err''" "''cats''"
      "map search_item two_ids" "map detail_item two_rows"]
    has_Id_search_item [of two_ids] has_parts_detail_item [of two_rows]
  by (simp add: two_videos_def record_of_detail_item two_rows_def)

text \<open>
  The claim as stated fails. The records are not capped at 10: a details response of
  twelve items gives twelve records. And not every failure gives the empty sequence:
  a detail item without its snippet makes the call panic.
\<close>

theorem searchYouTube_not_capped:
  "Search_Do twelve_details ''key-1'' (search_request ''cats'') = Inr (map search_item ten_ids)
   \<and> length (map search_item ten_ids) = 10
   \<and> snd (searchYouTube twelve_details ''key-1'' ''cats'') = Inr (map VideoRecord twelve_rows)
   \<and> length (map VideoRecord twelve_rows) = 12
   \<and> snd (searchYouTube no_snippet ''key-1'' ''cats'') = Inl NilPointerDereference"
proof -
  have "snd (searchYouTube twelve_details ''key-1'' ''cats'') = Inr (map VideoRecord twelve_rows)"
    using searchYouTube_success [of twelve_details "''key-1''" "''cats''" ten_ids twelve_rows]
    by (simp add: twelve_details_def)
  moreover have "snd (searchYouTube no_snippet ''key-1'' ''cats'') = Inl NilPointerDereference"
    using searchYouTube_any [of no_snippet "''key-1''" "''cats''" "map search_item two_ids"]
      has_Id_search_item [of two_ids]
    by (simp add: no_snippet_def has_parts_def)
  ultimately show ?thesis
    by (simp add: twelve_details_def twelve_rows_def ten_ids_def)
qed

text \<open>
  Claim C2. When the search call fails, no details call is issued and \<open>searchYouTube\<close>
  returns the empty sequence.
\<close>

theorem search_failure_stops:
  assumes "Search_Do yt apiKey (search_request query) = Inl e"
  shows "(\<forall>c. VideosCall c \<notin> set (calls (fst (searchYouTube yt apiKey query))))
         \<and> snd (searchYouTube yt apiKey query) = Inr []"
  using assms
  by (auto simp: searchYouTube_def search_request_def split: option.splits)

theorem search_failure_stops_witness:
  "Search_Do search_down ''key-1'' (search_request ''cats'') = Inl ''googleapi: Error 403: quotaExceeded''
   \<and> calls (fst (searchYouTube search_down ''key-1'' ''cats'')) =
       [NewServiceCall ''key-1'', SearchCall (search_request ''cats'')]
   \<and> snd (searchYouTube search_down ''key-1'' ''cats'') = Inr []"
  using search_failure_stops [of search_down "''key-1''" "''cats''" "''googleapi: Error 403: quotaExceeded''"]
  by (simp add: search_down_def searchYouTube_def search_request_def)

section \<open>The search handler\<close>

text \<open>
  Claim C6. When the adapter returns the empty sequence, the search handler answers
  with status 404 and the plain text \<open>No videos found.\<close>, and so with no rendered view.
\<close>

theorem handleSearch_empty:
  assumes "snd (searchYouTube yt apiKey (PostForm form ''query'')) = Inr []"
  shows "snd (handleSearch yt apiKey form) = Inr (String_response 404 ''No videos found.'')
         \<and> (\<forall>status name data. snd (handleSearch yt apiKey form) \<noteq> Inr (HTML_response status name data))"
  using assms by (simp add: handleSearch_def Let_def StatusNotFound_def)

theorem handleSearch_empty_witness:
  "snd (searchYouTube search_down ''key-1'' (PostForm [''query'' \<mapsto> ''cats''] ''query'')) = Inr []
   \<and> snd (handleSearch search_down ''key-1'' [''query'' \<mapsto> ''cats'']) =
       Inr (String_response 404 ''No videos found.'')"
  using handleSearch_empty [of search_down "''key-1''" "[''query'' \<mapsto> ''cats'']"]
  by (simp add: search_down_def searchYouTube_def PostForm_def)

text \<open>
  Claim C7. When the adapter returns a non-empty sequence, the search handler renders
  \<open>results.html\<close> with exactly that sequence, in its order, and every record of it
  carries a duration that \<open>formatDuration\<close> produced.
\<close>

theorem handleSearch_results:
  assumes "snd (searchYouTube yt apiKey (PostForm form ''query'')) = Inr videos"
    and "videos \<noteq> []"
  shows "snd (handleSearch yt apiKey form) =
           Inr (HTML_response 200 ''results.html'' [''Videos'' \<mapsto> Videos videos])
         \<and> (\<forall>v \<in> set videos. \<exists>raw. v ''duration'' = Some (formatDuration raw))"
  using assms searchYouTube_duration [OF assms(1)]
  by (simp add: handleSearch_def Let_def StatusOK_def)

theorem handleSearch_results_witness:
  "snd (searchYouTube two_videos ''key-1'' (PostForm [''query'' \<mapsto> ''cats''] ''query'')) =
     Inr (map VideoRecord two_rows)
   \<and> map VideoRecord two_rows \<noteq> []
   \<and> snd (handleSearch two_videos ''key-1'' [''query'' \<mapsto> ''cats'']) =
       Inr (HTML_response 200 ''results.html'' [''Videos'' \<mapsto> Videos (map VideoRecord two_rows)])"
proof -
  have r: "snd (searchYouTube two_videos ''key-1'' (PostForm [''query'' \<mapsto> ''cats''] ''query'')) =
     Inr (map VideoRecord two_rows)"
    using searchYouTube_success [of two_videos "''key-1''" _ two_ids two_rows]
      two_videos_search two_videos_details
    by (simp add: two_videos_def)
  have n: "map VideoRecord two_rows \<noteq> []"
    by (simp add: two_rows_def)
  from handleSearch_results [OF r n] r n show ?thesis by simp
qed

section \<open>Startup without the credential\<close>

lemma godotenv_Load_None:
  "env k = None \<Longrightarrow> k \<notin> fst ` set kvs \<Longrightarrow> godotenv_Load kvs env k = None"
  by (simp add: godotenv_Load_def map_of_eq_None_iff)

lemma godotenv_Load_last_wins:
  "Getenv (godotenv_Load [(''YOUTUBE_API_KEY'', ''''), (''YOUTUBE_API_KEY'', ''second'')] Map.empty)
     ''YOUTUBE_API_KEY'' = ''second''"
  by (simp add: godotenv_Load_def Getenv_def)

text \<open>
  Claim C9, as the code has it. When the \<open>.env\<close> file loads and the credential is
  neither in the environment of the process nor in the file, \<open>main\<close> ends in
  \<open>log.Fatal\<close> and does not reach \<open>router.Run\<close>. Storage plays no part in the startup:
  \<open>main\<close> does not call \<open>InitDB\<close>, and its outcome is the same with any SQL driver.
\<close>

theorem main_missing_key:
  assumes "dotenv st = Some kvs"
    and "environ st ''YOUTUBE_API_KEY'' = None"
    and "''YOUTUBE_API_KEY'' \<notin> fst ` set kvs"
  shows "main st = Fatal ''YouTube API key not found in environment''
         \<and> (\<forall>drv. main (st\<lparr>driver := drv\<rparr>) = main st)"
  using assms godotenv_Load_None [of "environ st" "''YOUTUBE_API_KEY''" kvs]
  by (simp add: main_def Getenv_def)

theorem main_missing_key_witness:
  "dotenv startup_without_key = Some [(''PORT'', ''8080'')]
   \<and> environ startup_without_key ''YOUTUBE_API_KEY'' = None
   \<and> ''YOUTUBE_API_KEY'' \<notin> fst ` set [(''PORT'', ''8080'')]
   \<and> main startup_without_key = Fatal ''YouTube API key not found in environment''"
  using main_missing_key [of startup_without_key "[(''PORT'', ''8080'')]"]
  by (simp add: startup_without_key_def)

text \<open>
  The claim as stated fails: with a storage whose initialization fails (\<open>InitDB\<close>
  returns the error of \<open>sql.Open\<close>), \<open>main\<close> still reaches \<open>router.Run\<close>.
\<close>

theorem main_ignores_storage_failure:
  "InitDB (driver startup_with_broken_storage) ''comments.db'' = Some ''unable to open database file''
   \<and> main startup_with_broken_storage =
       Serving '':8080''
         [(''GET'', ''/'', Home), (''POST'', ''/search'', Search ''key-1''),
          (''GET'', ''/embed/:id'', Embed)]"
  by (simp add: startup_with_broken_storage_def broken_driver_def InitDB_def main_def Getenv_def
      godotenv_Load_def)

section \<open>Properties of \<open>formatDuration\<close>\<close>

definition parse_input :: "string \<Rightarrow> string" where
  \<comment> \<open>the argument \<open>formatDuration\<close> passes to \<open>time.ParseDuration\<close>\<close>
  "parse_input duration = ReplaceAll (ToLower duration) ''pt'' ''''"

definition clock :: "int \<Rightarrow> string" where
  \<comment> \<open>what \<open>formatDuration\<close> prints for the duration \<open>d\<close> it has parsed\<close>
  "clock d =
     (if 0 < int_Hours d
      then fmt_d (int_Hours d) @ '':'' @ fmt_02d (go_rem (int_Minutes d) 60)
           @ '':'' @ fmt_02d (go_rem (int_Seconds d) 60)
      else fmt_d (go_rem (int_Minutes d) 60) @ '':'' @ fmt_02d (go_rem (int_Seconds d) 60))"

definition formatDuration_prefix_spec :: "string \<Rightarrow> string" where
  \<comment> \<open>\<open>formatDuration\<close> with the parsing step the specification words: only one
      case-insensitive \<open>PT\<close> prefix is stripped before the parse\<close>
  "formatDuration_prefix_spec duration = clock (fst (ParseDuration (strip_PT_prefix_spec duration)))"

definition drop_component :: "char \<Rightarrow> string \<Rightarrow> string" where
  \<comment> \<open>drops a component, digits and the letter \<open>u\<close>, from the front when there is one\<close>
  "drop_component u s =
     (let r = dropWhile is_digit s
      in if takeWhile is_digit s \<noteq> [] \<and> r \<noteq> [] \<and> hd r = u then tl r else s)"

definition is_PT_duration_spec :: "string \<Rightarrow> bool" where
  \<comment> \<open>the format the specification names: a \<open>PT\<close> prefix followed by hour, minute and
      second components, as in \<open>PT1H2M3S\<close>\<close>
  "is_PT_duration_spec s =
     (take 2 s = ''PT'' \<and> drop 2 s \<noteq> []
      \<and> drop_component CHR ''S'' (drop_component CHR ''M'' (drop_component CHR ''H'' (drop 2 s))) = [])"

lemma formatDuration_parsed:
  "formatDuration s =
     (if 0 < int_Hours (parsed s)
      then fmt_d (int_Hours (parsed s)) @ '':'' @ fmt_02d (go_rem (int_Minutes (parsed s)) 60)
           @ '':'' @ fmt_02d (go_rem (int_Seconds (parsed s)) 60)
      else fmt_d (go_rem (int_Minutes (parsed s)) 60) @ '':''
           @ fmt_02d (go_rem (int_Seconds (parsed s)) 60))"
  by (simp add: formatDuration_def parsed_def Let_def)

lemma formatDuration_eq_clock:
  "formatDuration s = clock (fst (ParseDuration (parse_input s)))"
  by (simp add: formatDuration_def clock_def parse_input_def Let_def)

lemmas parse_eval =
  parsed_def malformed_def parse_input_def strip_PT_prefix_spec_def
  ToLower_def lower_byte_def ReplaceAll_pt is_ascii_def
  ParseDuration_def parse_loop.simps parse_component_def leadingInt_def leadingFraction_def
  unit_char_def is_digit_def digit_val_def byte_def unitMap_def Let_def
  f64_mul_def f64_div_def f64_of_nat_def f64_trunc_def round_f64_def
  ilog2_def rne_div_def bit_len.simps
  Hour_def Minute_def Second_def Millisecond_def Microsecond_def Nanosecond_def

lemmas utf8_eval =
  runes.simps DecodeRune_def EncodeRune_def unicode_ToLower_def lower_ranges_def
  byte_char_def cont_def RuneError_def

lemmas clock_eval =
  int_Hours_def int_Minutes_def int_Seconds_def whole_units_def
  f64_add_def f64_div_def f64_of_nat_def f64_trunc_def round_f64_def
  ilog2_def rne_div_def bit_len.simps Let_def
  Hour_def Minute_def Second_def

lemmas print_eval =
  go_rem_def fmt_d_def fmt_02d_def decimal.simps pad2_def

lemma ParseDuration_error_zero:
  "snd (ParseDuration s) \<noteq> None \<Longrightarrow> fst (ParseDuration s) = 0"
  by (auto simp: ParseDuration_def Let_def split: if_splits sum.splits)

lemma formatDuration_of_zero:
  "parsed s = 0 \<Longrightarrow> formatDuration s = ''0:00''"
  by (simp add: formatDuration_def parsed_def Let_def int_Hours_def int_Minutes_def
      int_Seconds_def go_rem_def fmt_d_def fmt_02d_def decimal.simps)

lemma ParseDuration_bad_start:
  assumes "s \<noteq> []"
    and "\<not> (hd s = CHR ''+'' \<or> hd s = CHR ''-'' \<or> hd s = CHR ''.'' \<or> is_digit (hd s))"
  shows "ParseDuration s = (0, Some InvalidDuration)"
proof -
  from assms have "parse_component s = Inl InvalidDuration"
    by (simp add: parse_component_def)
  with assms(1) have "parse_loop 0 s = Inl InvalidDuration"
    by (simp add: parse_loop.simps [of 0 s])
  moreover from assms have "s \<noteq> ''0''"
    by (auto simp: is_digit_def byte_def)
  ultimately show ?thesis
    using assms by (simp add: ParseDuration_def)
qed

lemma go_rem_nonneg:
  "0 \<le> a \<Longrightarrow> go_rem a 60 = a mod 60"
  by (cases "a = 0") (simp_all add: go_rem_def)

lemma decimal_digit:
  "n < 10 \<Longrightarrow> decimal n = [''0123456789'' ! n]"
  by (simp add: decimal.simps)

lemma fmt_02d_pad2:
  assumes "0 \<le> x" and "x < 100"
  shows "fmt_02d x = pad2 (nat x)"
proof (cases "x < 10")
  case True
  with assms show ?thesis
    by (simp add: fmt_02d_def pad2_def decimal_digit)
next
  case False
  with assms have "nat x div 10 < 10" and "\<not> nat x < 10"
    by auto
  then have "decimal (nat x) = [''0123456789'' ! (nat x div 10), ''0123456789'' ! (nat x mod 10)]"
    using decimal.simps [of "nat x"] decimal_digit [of "nat x div 10"] by simp
  with False assms show ?thesis
    by (simp add: fmt_02d_def pad2_def)
qed

lemma fmt_d_nonneg:
  "0 \<le> x \<Longrightarrow> fmt_d x = decimal (nat x)"
  by (simp add: fmt_d_def)

lemma clock_part:
  assumes "0 \<le> a"
  shows "fmt_02d (go_rem a 60) = pad2 (nat a mod 60)"
    and "fmt_d (go_rem a 60) = decimal (nat a mod 60)"
proof -
  have m: "nat (a mod 60) = nat a mod 60"
    using assms by (simp add: nat_mod_distrib)
  show "fmt_02d (go_rem a 60) = pad2 (nat a mod 60)"
    using assms m fmt_02d_pad2 [of "a mod 60"] by (simp add: go_rem_nonneg)
  show "fmt_d (go_rem a 60) = decimal (nat a mod 60)"
    using assms m fmt_d_nonneg [of "a mod 60"] by (simp add: go_rem_nonneg)
qed

lemma whole_nonneg:
  "0 \<le> d \<Longrightarrow> 0 \<le> int_Hours d \<and> 0 \<le> int_Minutes d \<and> 0 \<le> int_Seconds d"
  by (simp add: int_Hours_def int_Minutes_def int_Seconds_def sgn_if)

lemma replace2_append:
  "a \<noteq> b \<Longrightarrow> replace2 a b [] (xs @ a # b # ys) = replace2 a b [] xs @ replace2 a b [] ys"
  by (induction a b "[] :: string" xs rule: replace2.induct) simp_all

lemma replace2_absent:
  "\<not> contains2 a b l \<Longrightarrow> replace2 a b new l = l"
  by (induction a b l rule: contains2.induct) auto

lemma contains2_skip:
  "c \<noteq> a \<Longrightarrow> contains2 a b (c # l) = contains2 a b l"
  by (cases l) simp_all

lemma parse_input_spec:
  assumes "\<not> contains2 CHR ''p'' CHR ''t'' (tl (ToLower s))"
  shows "parse_input s = strip_PT_prefix_spec s"
proof (cases "ToLower s")
  case Nil
  then show ?thesis
    by (simp add: parse_input_def strip_PT_prefix_spec_def ReplaceAll_pt)
next
  case (Cons c r)
  note l = Cons
  show ?thesis
  proof (cases r)
    case Nil
    with l show ?thesis
      by (simp add: parse_input_def strip_PT_prefix_spec_def ReplaceAll_pt)
  next
    case (Cons d r')
    show ?thesis
    proof (cases "c = CHR ''p'' \<and> d = CHR ''t''")
      case True
      with assms l Cons have "\<not> contains2 CHR ''p'' CHR ''t'' r'"
        using contains2_skip [of "CHR ''t''" "CHR ''p''" "CHR ''t''" r'] by simp
      then have "replace2 CHR ''p'' CHR ''t'' [] r' = r'"
        by (rule replace2_absent)
      with True l Cons show ?thesis
        by (simp add: parse_input_def strip_PT_prefix_spec_def ReplaceAll_pt)
    next
      case False
      from assms l Cons have "replace2 CHR ''p'' CHR ''t'' [] (d # r') = d # r'"
        using replace2_absent [of "CHR ''p''" "CHR ''t''" "d # r'" "[]"] by simp
      with False l Cons show ?thesis
        by (auto simp: parse_input_def strip_PT_prefix_spec_def ReplaceAll_pt)
    qed
  qed
qed

subsection \<open>Evaluations\<close>

text \<open>
  The hour component is \<open>int(d.Hours())\<close>, computed in \<open>float64\<close>, and not the integer
  quotient by an hour: one nanosecond below 4097 hours the sum \<open>4096 + 0.99999...\<close>
  rounds to 4097.
\<close>

lemma int_Hours_rounds:
  "int_Hours 14749199999999999 = 4097 \<and> 14749199999999999 div int Hour = 4096"
  by (simp add: clock_eval)

text \<open>
  After 25 digits of a fraction \<open>scale\<close> is not the \<open>float64\<close> nearest to \<open>10 ^ 25\<close> but
  the result of 25 rounded multiplications, and the fraction below counts one
  nanosecond.
\<close>

lemma scale_is_multiplied:
  "fst (snd (leadingFraction ''0000000010000000000000000s'')) = (9999999999999998758486016, 1)
   \<and> f64_of_nat (10 ^ 25) = (10000000000000000905969664, 1)
   \<and> ParseDuration ''0.0000000010000000000000000s'' = (1, None)"
  by (simp add: parse_eval)

text \<open>
  A string that is not ASCII is lower-cased code point by code point: the Greek capital
  letter mu (the bytes CE 9C) becomes the \<open>\<mu>\<close> (CE BC) of the unit \<open>\<mu>s\<close>, so that
  \<open>PT2M5\<close>, capital mu, \<open>S\<close> is two minutes and five microseconds; an invalid byte
  becomes the replacement character, which no unit has.
\<close>

lemma ToLower_not_ascii:
  "ToLower (''PT2M5'' @ [CHR 0xCE, CHR 0x9C] @ ''S'') = ''pt2m5'' @ [CHR 0xCE, CHR 0xBC] @ ''s''
   \<and> ToLower [CHR 0xFF] = [CHR 0xEF, CHR 0xBF, CHR 0xBD]"
  by (simp add: ToLower_def is_ascii_def byte_def lower_byte_def utf8_eval)

lemma parsed_PT2M5S: "parsed ''PT2M5S'' = 125000000000"
  by (simp add: parse_eval)

lemma clock_PT2M5S:
  "int_Hours 125000000000 = 0 \<and> int_Minutes 125000000000 = 2 \<and> int_Seconds 125000000000 = 125"
  by (simp add: clock_eval)

lemma formatDuration_PT2M5S: "formatDuration ''PT2M5S'' = ''2:05''"
  by (simp add: formatDuration_parsed parsed_PT2M5S clock_PT2M5S print_eval)

lemma parsed_PT1H2M3S: "parsed ''PT1H2M3S'' = 3723000000000"
  by (simp add: parse_eval)

lemma clock_PT1H2M3S:
  "int_Hours 3723000000000 = 1 \<and> int_Minutes 3723000000000 = 62 \<and> int_Seconds 3723000000000 = 3723"
  by (simp add: clock_eval)

lemma formatDuration_PT1H2M3S: "formatDuration ''PT1H2M3S'' = ''1:02:03''"
  by (simp add: formatDuration_parsed parsed_PT1H2M3S clock_PT1H2M3S print_eval)

lemma parsed_minus_1H: "parsed ''PT-1H'' = - 3600000000000"
  by (simp add: parse_eval)

lemma clock_minus_1H:
  "int_Hours (- 3600000000000) = - 1 \<and> int_Minutes (- 3600000000000) = - 60
   \<and> int_Seconds (- 3600000000000) = - 3600"
  by (simp add: clock_eval)

lemma parsed_minus_5S: "parsed ''PT-5S'' = - 5000000000"
  by (simp add: parse_eval)

lemma clock_minus_5S:
  "int_Hours (- 5000000000) = 0 \<and> int_Minutes (- 5000000000) = 0
   \<and> int_Seconds (- 5000000000) = - 5"
  by (simp add: clock_eval)

lemma parsed_PT1HPT2M: "parsed ''PT1HPT2M'' = 3720000000000"
  by (simp add: parse_eval)

lemma clock_PT1HPT2M:
  "int_Hours 3720000000000 = 1 \<and> int_Minutes 3720000000000 = 62 \<and> int_Seconds 3720000000000 = 3720"
  by (simp add: clock_eval)

lemma formatDuration_PT1HPT2M: "formatDuration ''PT1HPT2M'' = ''1:02:00''"
  by (simp add: formatDuration_parsed parsed_PT1HPT2M clock_PT1HPT2M print_eval)

lemma parsed_5m: "parsed ''5m'' = 300000000000 \<and> \<not> malformed ''5m''"
  by (simp add: parse_eval)

lemma clock_5m:
  "int_Hours 300000000000 = 0 \<and> int_Minutes 300000000000 = 5 \<and> int_Seconds 300000000000 = 300"
  by (simp add: clock_eval)

lemma parsed_micro:
  "parsed (''PT2M5'' @ [CHR 0xCE, CHR 0x9C] @ ''S'') = 120000005000"
  by (simp add: parse_eval utf8_eval)

lemma clock_micro:
  "int_Hours 120000005000 = 0 \<and> int_Minutes 120000005000 = 2 \<and> int_Seconds 120000005000 = 120"
  by (simp add: clock_eval)

lemma formatDuration_micro:
  "formatDuration (''PT2M5'' @ [CHR 0xCE, CHR 0x9C] @ ''S'') = ''2:00''"
  by (simp only: formatDuration_parsed parsed_micro) (simp add: clock_micro print_eval)

subsection \<open>The clock format\<close>

text \<open>
  Claim C3, as the code has it. For every duration string whose parsed value is not
  negative: when the hour component is zero the output is the minutes, unpadded, a
  colon and the seconds in two digits; when the hour component is positive the output
  is the hours, unpadded, and the minutes and the seconds in two digits each,
  separated by colons. Minutes and seconds are below 60. \<open>PT2M5S\<close> gives \<open>2:05\<close> and
  \<open>PT1H2M3S\<close> gives \<open>1:02:03\<close>.
\<close>

theorem formatDuration_clock:
  assumes "0 \<le> parsed s"
  shows "(int_Hours (parsed s) = 0 \<longrightarrow>
            formatDuration s =
              decimal (nat (int_Minutes (parsed s)) mod 60) @ '':''
              @ pad2 (nat (int_Seconds (parsed s)) mod 60))
         \<and> (0 < int_Hours (parsed s) \<longrightarrow>
            formatDuration s =
              decimal (nat (int_Hours (parsed s))) @ '':''
              @ pad2 (nat (int_Minutes (parsed s)) mod 60) @ '':''
              @ pad2 (nat (int_Seconds (parsed s)) mod 60))
         \<and> (int_Hours (parsed s) = 0 \<or> 0 < int_Hours (parsed s))
         \<and> length (pad2 n) = 2
         \<and> formatDuration ''PT2M5S'' = ''2:05''
         \<and> formatDuration ''PT1H2M3S'' = ''1:02:03''"
proof -
  define d where "d = parsed s"
  have nn: "0 \<le> int_Hours d" "0 \<le> int_Minutes d" "0 \<le> int_Seconds d"
    using assms whole_nonneg [of d] by (simp_all add: d_def)
  have f: "formatDuration s =
      (if int_Hours d > 0
       then fmt_d (int_Hours d) @ '':'' @ fmt_02d (go_rem (int_Minutes d) 60) @ '':''
            @ fmt_02d (go_rem (int_Seconds d) 60)
       else fmt_d (go_rem (int_Minutes d) 60) @ '':'' @ fmt_02d (go_rem (int_Seconds d) 60))"
    by (simp add: formatDuration_parsed d_def)
  have zero: "int_Hours d = 0 \<longrightarrow>
      formatDuration s = decimal (nat (int_Minutes d) mod 60) @ '':'' @ pad2 (nat (int_Seconds d) mod 60)"
    using f clock_part [OF nn(2)] clock_part [OF nn(3)] by simp
  have pos: "0 < int_Hours d \<longrightarrow>
      formatDuration s = decimal (nat (int_Hours d)) @ '':'' @ pad2 (nat (int_Minutes d) mod 60)
        @ '':'' @ pad2 (nat (int_Seconds d) mod 60)"
    using f clock_part [OF nn(2)] clock_part [OF nn(3)] fmt_d_nonneg [OF nn(1)] by simp
  have either: "int_Hours d = 0 \<or> 0 < int_Hours d"
    using nn(1) by auto
  from zero pos either formatDuration_PT2M5S formatDuration_PT1H2M3S show ?thesis
    by (simp add: d_def pad2_def)
qed

theorem formatDuration_clock_witness:
  "parsed ''PT1H2M3S'' = 3723000000000
   \<and> int_Hours (parsed ''PT1H2M3S'') = 1
   \<and> formatDuration ''PT1H2M3S'' = decimal 1 @ '':'' @ pad2 2 @ '':'' @ pad2 3
   \<and> formatDuration ''PT1H2M3S'' = ''1:02:03''"
  using formatDuration_clock [of "''PT1H2M3S''" 0]
  by (simp add: parsed_PT1H2M3S clock_PT1H2M3S formatDuration_PT1H2M3S print_eval)

text \<open>
  The claim as stated fails on negative durations, which \<open>time.ParseDuration\<close> accepts:
  \<open>PT-1H\<close> has the hour component \<open>-1\<close> and gives \<open>0:00\<close>, and \<open>PT-5S\<close> has the hour
  component 0 and gives \<open>0:-5\<close>.
\<close>

theorem formatDuration_negative:
  "int_Hours (parsed ''PT-1H'') = - 1 \<and> formatDuration ''PT-1H'' = ''0:00''
   \<and> int_Hours (parsed ''PT-5S'') = 0 \<and> formatDuration ''PT-5S'' = ''0:-5''"
  by (simp add: formatDuration_parsed parsed_minus_1H clock_minus_1H parsed_minus_5S
      clock_minus_5S print_eval)

subsection \<open>Inputs that do not parse\<close>

text \<open>
  Claim C4, as the code has it. For every input string on which the parse fails,
  \<open>formatDuration\<close> returns exactly \<open>0:00\<close>, and it has no error to return. The parse
  fails on the empty string, on every string of which nothing is left once it is
  lower-cased and \<open>pt\<close> is removed, and on every string of which what is left does not
  begin with a sign, a digit or a point.
\<close>

theorem formatDuration_malformed:
  "(malformed s \<longrightarrow> formatDuration s = ''0:00'')
   \<and> (parse_input s = [] \<longrightarrow> malformed s)
   \<and> (parse_input s \<noteq> []
        \<and> \<not> (hd (parse_input s) = CHR ''+'' \<or> hd (parse_input s) = CHR ''-''
              \<or> hd (parse_input s) = CHR ''.'' \<or> is_digit (hd (parse_input s))) \<longrightarrow>
        malformed s)
   \<and> malformed '''' \<and> formatDuration '''' = ''0:00''"
proof -
  have z: "formatDuration t = ''0:00''" if "malformed t" for t
  proof -
    from that have "parsed t = 0"
      using ParseDuration_error_zero by (simp add: malformed_def parsed_def)
    then show ?thesis by (rule formatDuration_of_zero)
  qed
  have e: "malformed t" if "parse_input t = []" for t
    using that by (simp add: malformed_def parse_input_def ParseDuration_def)
  have b: "malformed s" if "parse_input s \<noteq> []
        \<and> \<not> (hd (parse_input s) = CHR ''+'' \<or> hd (parse_input s) = CHR ''-''
              \<or> hd (parse_input s) = CHR ''.'' \<or> is_digit (hd (parse_input s)))"
    using that ParseDuration_bad_start [of "parse_input s"]
    by (simp add: malformed_def parse_input_def)
  have n: "parse_input '''' = []"
    by (simp add: parse_input_def ToLower_def is_ascii_def ReplaceAll_pt)
  from z [of s] e [of s] b e [OF n] z [OF e [OF n]] show ?thesis
    by blast
qed

theorem formatDuration_malformed_witness:
  "parse_input ''P1DT2H'' = ''p1dt2h'' \<and> malformed ''P1DT2H''
   \<and> formatDuration ''P1DT2H'' = ''0:00''
   \<and> parse_input ''PT'' = [] \<and> formatDuration ''PT'' = ''0:00''"
proof -
  have p: "parse_input ''P1DT2H'' = ''p1dt2h'' \<and> parse_input ''PT'' = []"
    by (simp add: parse_input_def ToLower_def is_ascii_def byte_def lower_byte_def ReplaceAll_pt)
  then have "malformed ''P1DT2H'' \<and> malformed ''PT''"
    using formatDuration_malformed [of "''P1DT2H''"] formatDuration_malformed [of "''PT''"]
    by (simp add: is_digit_def byte_def)
  with p show ?thesis
    using formatDuration_malformed [of "''P1DT2H''"] formatDuration_malformed [of "''PT''"]
    by simp
qed

text \<open>
  The claim as stated fails when malformed means outside the format of the
  specification: \<open>5m\<close> has no \<open>PT\<close> prefix, yet \<open>time.ParseDuration\<close> accepts it and the
  output is \<open>5:00\<close>.
\<close>

theorem formatDuration_accepts_5m:
  "is_PT_duration_spec ''PT1H2M3S'' \<and> \<not> is_PT_duration_spec ''5m''
   \<and> \<not> malformed ''5m'' \<and> formatDuration ''5m'' = ''5:00''"
proof -
  have "is_PT_duration_spec ''PT1H2M3S'' \<and> \<not> is_PT_duration_spec ''5m''"
    by (simp add: is_PT_duration_spec_def drop_component_def is_digit_def byte_def)
  moreover have "formatDuration ''5m'' = ''5:00''"
    by (simp add: formatDuration_parsed parsed_5m clock_5m print_eval)
  ultimately show ?thesis
    using parsed_5m by simp
qed

subsection \<open>The removal of \<open>pt\<close>\<close>

text \<open>
  Claim C5, as the code has it. For every input string, \<open>formatDuration\<close> lower-cases
  the whole string and removes every occurrence of \<open>pt\<close> from the lower-cased string
  (scanning from the left), wherever it stands and not only one prefix: an occurrence
  is dropped and what stands before it and after it is treated in the same way. What
  is left is parsed into the elapsed time that is formatted. On an input whose
  lower-cased form has no \<open>pt\<close> after its first byte this is the stripping of one
  case-insensitive \<open>PT\<close> prefix.
\<close>

theorem formatDuration_removes_every_pt:
  "(ToLower s = xs @ ''pt'' @ ys \<longrightarrow>
      formatDuration s =
        clock (fst (ParseDuration (ReplaceAll xs ''pt'' '''' @ ReplaceAll ys ''pt'' ''''))))
   \<and> (\<not> contains2 CHR ''p'' CHR ''t'' (tl (ToLower s)) \<longrightarrow>
      formatDuration s = formatDuration_prefix_spec s)"
proof (intro conjI impI)
  assume "ToLower s = xs @ ''pt'' @ ys"
  then have "parse_input s = ReplaceAll xs ''pt'' '''' @ ReplaceAll ys ''pt'' ''''"
    using replace2_append [of "CHR ''p''" "CHR ''t''" xs ys]
    by (simp add: parse_input_def ReplaceAll_pt)
  then show "formatDuration s =
        clock (fst (ParseDuration (ReplaceAll xs ''pt'' '''' @ ReplaceAll ys ''pt'' '''')))"
    by (simp add: formatDuration_eq_clock)
next
  assume "\<not> contains2 CHR ''p'' CHR ''t'' (tl (ToLower s))"
  then have "parse_input s = strip_PT_prefix_spec s"
    by (rule parse_input_spec)
  then show "formatDuration s = formatDuration_prefix_spec s"
    by (simp add: formatDuration_eq_clock formatDuration_prefix_spec_def)
qed

theorem formatDuration_removes_every_pt_witness:
  "ToLower ''PT1HPT2M'' = ''pt1h'' @ ''pt'' @ ''2m''
   \<and> formatDuration ''PT1HPT2M'' =
       clock (fst (ParseDuration (ReplaceAll ''pt1h'' ''pt'' '''' @ ReplaceAll ''2m'' ''pt'' '''')))
   \<and> ReplaceAll ''pt1h'' ''pt'' '''' @ ReplaceAll ''2m'' ''pt'' '''' = ''1h2m''
   \<and> \<not> contains2 CHR ''p'' CHR ''t'' (tl (ToLower ''PT2M5S''))
   \<and> formatDuration ''PT2M5S'' = formatDuration_prefix_spec ''PT2M5S''"
proof -
  have l: "ToLower ''PT1HPT2M'' = ''pt1h'' @ ''pt'' @ ''2m''
      \<and> \<not> contains2 CHR ''p'' CHR ''t'' (tl (ToLower ''PT2M5S''))"
    by (simp add: ToLower_def is_ascii_def byte_def lower_byte_def)
  have r: "ReplaceAll ''pt1h'' ''pt'' '''' @ ReplaceAll ''2m'' ''pt'' '''' = ''1h2m''"
    by (simp add: ReplaceAll_pt)
  from l r show ?thesis
    using formatDuration_removes_every_pt [of "''PT1HPT2M''" "''pt1h''" "''2m''"]
      formatDuration_removes_every_pt [of "''PT2M5S''" "[]" "[]"]
    by simp
qed

text \<open>
  The claim as stated fails: a \<open>PT\<close> inside the string is removed as well. \<open>PT1HPT2M\<close>
  is parsed as \<open>1h2m\<close> and gives \<open>1:02:00\<close>; with only the prefix stripped the rest
  \<open>1hpt2m\<close> would not parse.
\<close>

theorem parse_input_inner_pt:
  "parse_input ''PT1HPT2M'' = ''1h2m''
   \<and> strip_PT_prefix_spec ''PT1HPT2M'' = ''1hpt2m''
   \<and> formatDuration ''PT1HPT2M'' = ''1:02:00''
   \<and> ParseDuration (strip_PT_prefix_spec ''PT1HPT2M'') = (0, Some (UnknownUnit ''hpt''))"
proof -
  have "ParseDuration (strip_PT_prefix_spec ''PT1HPT2M'') = (0, Some (UnknownUnit ''hpt''))"
    by (simp add: parse_eval)
  moreover have "parse_input ''PT1HPT2M'' = ''1h2m'' \<and> strip_PT_prefix_spec ''PT1HPT2M'' = ''1hpt2m''"
    by (simp add: parse_input_def strip_PT_prefix_spec_def ToLower_def is_ascii_def byte_def
        lower_byte_def ReplaceAll_pt)
  ultimately show ?thesis
    using formatDuration_PT1HPT2M by simp
qed

end
